theory Spec2Isabelle
  imports Complex_Main "HOL-Library.Word" "HOL-Library.Multiset" "HOL-Library.Sublist"
begin

section \<open>JavaScript strings and numbers\<close>

text \<open>
  A JavaScript string is a sequence of UTF-16 code units. The string methods used by
  the admin dashboard (\<^verbatim>\<open>split\<close>, \<^verbatim>\<open>trim\<close>, \<^verbatim>\<open>replace\<close> with a
  regular expression that has no \<^verbatim>\<open>u\<close> flag, \<^verbatim>\<open>join\<close>) all work code unit by
  code unit, so a string is a list of 16-bit words. \<open>js\<close> turns an ASCII literal into
  such a string.
\<close>

type_synonym code_unit = "16 word"
type_synonym jsstring = "code_unit list"

definition js :: "string \<Rightarrow> jsstring" where
  "js s = map of_char s"

text \<open>The double quote, which the message templates contain.\<close>

definition dquote :: jsstring where
  "dquote = [0x22]"

text \<open>
  \<^verbatim>\<open>String.prototype.trim\<close> strips WhiteSpace and LineTerminator code points from both
  ends: TAB, LF, VT, FF, CR, SP, NBSP, U+1680, U+2000 to U+200A, U+2028, U+2029, U+202F,
  U+205F, U+3000 and U+FEFF.
\<close>

definition isWhiteSpace :: "code_unit \<Rightarrow> bool" where
  "isWhiteSpace c \<longleftrightarrow>
     c \<in> {0x09, 0x0A, 0x0B, 0x0C, 0x0D, 0x20, 0xA0, 0x1680, 0x2028, 0x2029, 0x202F,
          0x205F, 0x3000, 0xFEFF} \<or> (0x2000 \<le> c \<and> c \<le> 0x200A)"

definition trim :: "jsstring \<Rightarrow> jsstring" where
  "trim s = rev (dropWhile isWhiteSpace (rev (dropWhile isWhiteSpace s)))"

text \<open>
  \<^verbatim>\<open>s.split(',')\<close>: the segments between the separators; the empty string splits
  into one empty segment.
\<close>

fun split :: "code_unit \<Rightarrow> jsstring \<Rightarrow> jsstring list" where
  "split sep [] = [[]]"
| "split sep (c # cs) =
     (if c = sep then [] # split sep cs
      else (case split sep cs of
              [] \<Rightarrow> [[c]]
            | seg # segs \<Rightarrow> (c # seg) # segs))"

text \<open>\<^verbatim>\<open>xs.join(sep)\<close>.\<close>

fun join :: "jsstring \<Rightarrow> jsstring list \<Rightarrow> jsstring" where
  "join sep [] = []"
| "join sep [x] = x"
| "join sep (x # y # ys) = x @ sep @ join sep (y # ys)"

text \<open>\<^verbatim>\<open>Boolean(s)\<close> on a string: true exactly for the non-empty ones.\<close>

definition Boolean_str :: "jsstring \<Rightarrow> bool" where
  "Boolean_str s \<longleftrightarrow> s \<noteq> []"

text \<open>
  \<^verbatim>\<open>features.split(',').map((f) => f.trim()).filter(Boolean)\<close>, the feature list that
  both \<^verbatim>\<open>fetchPlans\<close> and \<^verbatim>\<open>handleAddPlan\<close> compute.
\<close>

definition featureList :: "jsstring \<Rightarrow> jsstring list" where
  "featureList s = filter Boolean_str (map trim (split 0x2C s))"

text \<open>
  The \<^verbatim>\<open>features\<close> field of the payload of \<^verbatim>\<open>handleAddPlan\<close>:
  \<^verbatim>\<open>newPlan.features.split(',').map((f) => f.trim()).filter(Boolean).join(', ')\<close>.
\<close>

definition normalizeFeatures :: "jsstring \<Rightarrow> jsstring" where
  "normalizeFeatures s = join (js '', '') (featureList s)"

subsection \<open>File name sanitization\<close>

text \<open>
  The character class \<^verbatim>\<open>[^a-z0-9.]\<close> under the flags \<^verbatim>\<open>gi\<close>. Without the
  \<^verbatim>\<open>u\<close> flag, case-insensitive matching never identifies a code unit above 127 with
  an ASCII one, so the class \<^verbatim>\<open>[a-z0-9.]\<close> matches exactly the ASCII letters of both
  cases, the ASCII digits and the dot.
\<close>

definition isLower :: "code_unit \<Rightarrow> bool" where
  "isLower c \<longleftrightarrow> 0x61 \<le> c \<and> c \<le> 0x7A"

definition isUpper :: "code_unit \<Rightarrow> bool" where
  "isUpper c \<longleftrightarrow> 0x41 \<le> c \<and> c \<le> 0x5A"

definition isDigit :: "code_unit \<Rightarrow> bool" where
  "isDigit c \<longleftrightarrow> 0x30 \<le> c \<and> c \<le> 0x39"

definition isDot :: "code_unit \<Rightarrow> bool" where
  "isDot c \<longleftrightarrow> c = 0x2E"

definition allowed :: "code_unit \<Rightarrow> bool" where
  "allowed c \<longleftrightarrow> isLower c \<or> isUpper c \<or> isDigit c \<or> isDot c"

text \<open>\<^verbatim>\<open>name.replace(/[^a-z0-9.]/gi, '_')\<close>: every code unit outside the class becomes
  an underscore.\<close>

definition replaceDisallowed :: "jsstring \<Rightarrow> jsstring" where
  "replaceDisallowed s = map (\<lambda>c. if allowed c then c else 0x5F) s"

text \<open>
  \<^verbatim>\<open>toLowerCase\<close> on a string of ASCII code units maps \<^verbatim>\<open>A-Z\<close> to \<^verbatim>\<open>a-z\<close> and
  leaves every other ASCII code unit alone. The dashboard applies it only to the result
  of \<open>replaceDisallowed\<close>, which is ASCII (lemma \<open>replaceDisallowed_ascii\<close>); on code
  units above 127, where the method follows the Unicode tables, this function is the
  identity and is not meant to describe it.
\<close>

definition toLowerCase :: "jsstring \<Rightarrow> jsstring" where
  "toLowerCase s = map (\<lambda>c. if isUpper c then c + 0x20 else c) s"

text \<open>
  \<^verbatim>\<open>Date.now()\<close> is an integer number of milliseconds; \<^verbatim>\<open>toString()\<close> and template
  interpolation print it in decimal, with a minus sign when negative.
\<close>

definition digitChar :: "nat \<Rightarrow> code_unit" where
  "digitChar d = of_nat (48 + d)"

function digits :: "nat \<Rightarrow> jsstring" where
  "digits n = (if n < 10 then [digitChar n] else digits (n div 10) @ [digitChar (n mod 10)])"
  by pat_completeness auto
termination
  by (relation "measure id") auto

declare digits.simps [simp del]

definition toString :: "int \<Rightarrow> jsstring" where
  "toString i = (if i < 0 then 0x2D # digits (nat (- i)) else digits (nat i))"

text \<open>
  \<^verbatim>\<open>`${Date.now()}_${uploadFile.name.replace(/[^a-z0-9.]/gi, '_').toLowerCase()}`\<close>,
  with the clock reading \<open>t\<close> passed in.
\<close>

definition safeFileName :: "int \<Rightarrow> jsstring \<Rightarrow> jsstring" where
  "safeFileName t name = toString t @ js ''_'' @ toLowerCase (replaceDisallowed name)"


text \<open>
  A JavaScript number, as far as the dashboard meets one: the time values of
  \<^verbatim>\<open>Date\<close> are \<^verbatim>\<open>NaN\<close> (an invalid date) or an integer number of milliseconds,
  and the dashboard divides them by 1000. The quotient is kept exact; its order and the
  sign of a difference of two such quotients are those of the doubles.
\<close>

datatype number = NaN | Num rat

fun divide1000 :: "number \<Rightarrow> number" where
  "divide1000 NaN = NaN"
| "divide1000 (Num r) = Num (r / 1000)"

section \<open>Data model\<close>

record HMSPlan =
  id_plan :: jsstring
  name_plan :: jsstring
  price_plan :: jsstring
  features_plan :: "jsstring list"
  isPrimary_plan :: bool
  createdAt :: "number option"  \<comment> \<open>\<^verbatim>\<open>createdAt?: { seconds: number }\<close>\<close>

record NewPlanData =
  name_new :: jsstring
  price_new :: jsstring
  features_new :: jsstring
  isPrimary_new :: bool

record MediaItem =
  id_media :: jsstring
  fileName :: jsstring
  url_media :: jsstring
  uploadedAt :: number  \<comment> \<open>\<^verbatim>\<open>uploadedAt: { seconds: number }\<close>\<close>

datatype item_type = TPlan | TMedia

record ItemToDelete =
  id_item :: jsstring
  type_item :: item_type
  name_item :: jsstring

datatype toast_type = Success | Error | Info

record ToastMessage =
  id_toast :: jsstring
  message :: jsstring
  type_toast :: toast_type

text \<open>The part of a \<^verbatim>\<open>File\<close> the dashboard reads.\<close>

record jsfile =
  name_file :: jsstring

definition STORAGE_PUBLIC_PATH :: jsstring where
  "STORAGE_PUBLIC_PATH = js ''public/media''"

section \<open>Ordering of plans\<close>

text \<open>
  \<^verbatim>\<open>Array.prototype.sort\<close> with a comparison function is a stable sort: an element
  \<open>a\<close> stays before \<open>b\<close> unless the comparator returns a positive number for
  \<open>(a, b)\<close>. For a consistent comparator the result of a stable sort is determined;
  it is computed here by insertion from the right.
\<close>

fun insertBy :: "('a \<Rightarrow> 'a \<Rightarrow> rat) \<Rightarrow> 'a \<Rightarrow> 'a list \<Rightarrow> 'a list" where
  "insertBy cmp a [] = [a]"
| "insertBy cmp a (b # bs) = (if cmp a b > 0 then b # insertBy cmp a bs else a # b # bs)"

definition sortBy :: "('a \<Rightarrow> 'a \<Rightarrow> rat) \<Rightarrow> 'a list \<Rightarrow> 'a list" where
  "sortBy cmp xs = foldr (insertBy cmp) xs []"

text \<open>\<^verbatim>\<open>(a.createdAt?.seconds || 0)\<close>: a missing time stamp, \<^verbatim>\<open>NaN\<close> and 0 all give 0.\<close>

fun secondsOr0 :: "number option \<Rightarrow> rat" where
  "secondsOr0 None = 0"
| "secondsOr0 (Some NaN) = 0"
| "secondsOr0 (Some (Num r)) = r"

text \<open>The comparison function of \<^verbatim>\<open>fetchPlans\<close>.\<close>

definition comparePlans :: "HMSPlan \<Rightarrow> HMSPlan \<Rightarrow> rat" where
  "comparePlans a b =
     (if isPrimary_plan a \<noteq> isPrimary_plan b then (if isPrimary_plan a then - 1 else 1)
      else secondsOr0 (createdAt a) - secondsOr0 (createdAt b))"

definition sortPlans :: "HMSPlan list \<Rightarrow> HMSPlan list" where
  "sortPlans ps = sortBy comparePlans ps"

section \<open>The hosted backend\<close>

text \<open>
  The rows of the two tables as the dashboard reads them (\<^verbatim>\<open>d.id\<close>, \<^verbatim>\<open>d.name\<close>,
  \<^verbatim>\<open>d.is_primary\<close>, ...); a column that the dashboard tests for presence is optional.
\<close>

record plan_row =
  id_prow :: jsstring
  name_prow :: jsstring
  price_prow :: jsstring
  features_prow :: "jsstring option"
  is_primary :: "bool option"
  created_at :: "jsstring option"

record media_row =
  id_mrow :: jsstring
  file_name :: jsstring
  url_mrow :: jsstring
  uploaded_at :: "jsstring option"

text \<open>The objects that \<^verbatim>\<open>insert\<close> receives.\<close>

record plan_payload =
  name_pl :: jsstring
  price_pl :: jsstring
  features_pl :: jsstring
  is_primary_pl :: bool
  created_at_pl :: jsstring

record media_payload =
  file_name_pl :: jsstring
  url_pl :: jsstring
  uploaded_at_pl :: jsstring

text \<open>The calls that the dashboard issues to the backend, with their arguments.\<close>

datatype call =
    SelectPlans
  | InsertPlan plan_payload
  | DeletePlan jsstring
  | SelectMedia
  | SelectFileName jsstring
  | InsertMedia media_payload
  | DeleteMedia jsstring
  | Upload jsstring
  | Remove jsstring

fun isDelete :: "call \<Rightarrow> bool" where
  "isDelete (DeletePlan i) = True"
| "isDelete (DeleteMedia i) = True"
| "isDelete (Remove p) = True"
| "isDelete c = False"

text \<open>
  What the dashboard cannot decide is a parameter of every operation: which calls the
  backend reports as failed and how long they take, the identifier the store gives a new
  row, the order in which the store returns the media rows for
  \<^verbatim>\<open>order('uploaded_at', { ascending: false })\<close>, the public URL of a path, the message
  of an error object, and the two \<^verbatim>\<open>Date\<close> conversions
  (\<^verbatim>\<open>new Date(s).getTime()\<close> and \<^verbatim>\<open>toISOString()\<close> of a clock reading).
\<close>

record env =
  fails :: "call \<Rightarrow> bool"
  latency :: "call \<Rightarrow> nat"
  assigned_id :: jsstring
  orderByUploadedAtDesc :: "media_row list \<Rightarrow> media_row list"
  getPublicUrl :: "jsstring \<Rightarrow> jsstring"
  errorMessage :: "call \<Rightarrow> jsstring option"
  getTime :: "jsstring \<Rightarrow> number"
  toISOString :: "int \<Rightarrow> jsstring"

text \<open>What a \<^verbatim>\<open>try\<close> block throws: the error object of a failed call, or
  \<^verbatim>\<open>new Error('Media not found')\<close>.\<close>

datatype thrown = CallError call | MediaNotFound

section \<open>State of the dashboard\<close>

datatype callback = ExpireToast jsstring | ResetProgress

text \<open>
  The React state of \<^verbatim>\<open>ProductCatalogAdmin\<close>, the value of the file input, the
  remote store (two tables and the paths of the stored objects), the calls issued so
  far, the client clock in milliseconds and the pending \<^verbatim>\<open>setTimeout\<close> callbacks with
  the time each is due.
\<close>

record world =
  plans :: "HMSPlan list"
  mediaItems :: "MediaItem list"
  loading :: bool
  authReady :: bool
  isAdmin :: bool
  error :: "jsstring option"
  newPlan :: NewPlanData
  uploadFile :: "jsfile option"
  isUploading :: bool
  uploadProgress :: nat
  isAddingPlan :: bool
  showDeleteModal :: bool
  itemToDelete :: "ItemToDelete option"
  toasts :: "ToastMessage list"
  fileInputValue :: jsstring
  plans_table :: "plan_row list"
  media_table :: "media_row list"
  bucket :: "jsstring list"
  issued :: "call list"
  clock :: int
  timers :: "(int \<times> callback) list"

definition emptyNewPlan :: NewPlanData where
  "emptyNewPlan = \<lparr>name_new = [], price_new = [], features_new = [], isPrimary_new = False\<rparr>"

text \<open>The state at mount, over a given remote store and clock.\<close>

definition initialWorld :: "plan_row list \<Rightarrow> media_row list \<Rightarrow> jsstring list \<Rightarrow> int \<Rightarrow> world" where
  "initialWorld pt mt b t =
     \<lparr>plans = [], mediaItems = [], loading = True, authReady = False, isAdmin = False,
      error = None, newPlan = emptyNewPlan, uploadFile = None, isUploading = False,
      uploadProgress = 0, isAddingPlan = False, showDeleteModal = False, itemToDelete = None,
      toasts = [], fileInputValue = [], plans_table = pt, media_table = mt, bucket = b,
      issued = [], clock = t, timers = []\<rparr>"

section \<open>Toast management\<close>

definition addToast :: "jsstring \<Rightarrow> toast_type \<Rightarrow> world \<Rightarrow> world" where
  "addToast msg ty w =
     (let i = toString (clock w)
      in w\<lparr>toasts := toasts w @ [\<lparr>id_toast = i, message = msg, type_toast = ty\<rparr>],
           timers := timers w @ [(clock w + 5000, ExpireToast i)]\<rparr>)"

definition removeToast :: "jsstring \<Rightarrow> world \<Rightarrow> world" where
  "removeToast i w = w\<lparr>toasts := filter (\<lambda>toast. id_toast toast \<noteq> i) (toasts w)\<rparr>"

fun runCallback :: "callback \<Rightarrow> world \<Rightarrow> world" where
  "runCallback (ExpireToast i) w =
     w\<lparr>toasts := filter (\<lambda>toast. id_toast toast \<noteq> i) (toasts w)\<rparr>"
| "runCallback ResetProgress w = w\<lparr>uploadProgress := 0\<rparr>"

text \<open>Time passes by \<open>d\<close> milliseconds: the callbacks that are due run, earliest first.\<close>

definition elapse :: "nat \<Rightarrow> world \<Rightarrow> world" where
  "elapse d w =
     (let t = clock w + int d;
          due = sort_key fst (filter (\<lambda>timer. fst timer \<le> t) (timers w));
          rest = filter (\<lambda>timer. \<not> fst timer \<le> t) (timers w)
      in fold (\<lambda>timer. runCallback (snd timer)) due (w\<lparr>clock := t, timers := rest\<rparr>))"

section \<open>Session check and render gate\<close>

type_synonym user = jsstring

text \<open>\<^verbatim>\<open>supabaseClient.auth.getSession()\<close> throws, or resolves with the session's user
  if there is one.\<close>

datatype session_result = SessionThrows | SessionReturns "user option"

text \<open>
  The effect that runs once at mount. \<open>mounted\<close> is the flag that the clean-up of the
  effect clears; \<^verbatim>\<open>setIsAdmin(!!user)\<close> is the only place that sets \<open>isAdmin\<close>.
\<close>

definition authEffect :: "bool \<Rightarrow> session_result \<Rightarrow> world \<Rightarrow> world" where
  "authEffect mounted r w =
     (case r of
        SessionReturns u \<Rightarrow>
          if \<not> mounted then w else w\<lparr>isAdmin := (u \<noteq> None), authReady := True\<rparr>
      | SessionThrows \<Rightarrow>
          w\<lparr>error := Some (js ''Failed to initialize authentication. Is Supabase client configured?''),
            authReady := True\<rparr>)"

datatype view = Initializing | AccessDenied | Dashboard

text \<open>The two early returns of the main render.\<close>

definition render :: "world \<Rightarrow> view" where
  "render w = (if \<not> authReady w then Initializing else if \<not> isAdmin w then AccessDenied else Dashboard)"

section \<open>Fetching the collections\<close>

text \<open>
  An awaited backend call is recorded; while it is awaited, time passes by its latency and
  the \<^verbatim>\<open>setTimeout\<close> callbacks that fall due run.
\<close>

definition issue :: "env \<Rightarrow> call \<Rightarrow> world \<Rightarrow> world" where
  "issue e c w = elapse (latency e c) (w\<lparr>issued := issued w @ [c]\<rparr>)"

text \<open>
  Whether the backend reports an error for a call issued in state \<open>w\<close>: the environment
  makes it fail, or it is an upload to a taken path (\<^verbatim>\<open>upsert: false\<close>), or a
  \<^verbatim>\<open>single()\<close> select that does not match exactly one row. A call reported as failed
  leaves the store as it was.
\<close>

definition reportsError :: "env \<Rightarrow> world \<Rightarrow> call \<Rightarrow> bool" where
  "reportsError e w c \<longleftrightarrow>
     fails e c \<or>
     (case c of
        Upload p \<Rightarrow> p \<in> set (bucket w)
      | SelectFileName i \<Rightarrow> length (filter (\<lambda>d. id_mrow d = i) (media_table w)) \<noteq> 1
      | other \<Rightarrow> False)"

definition toPlan :: "env \<Rightarrow> plan_row \<Rightarrow> HMSPlan" where
  "toPlan e d =
     \<lparr>id_plan = id_prow d, name_plan = name_prow d, price_plan = price_prow d,
      features_plan =
        (case features_prow d of
           None \<Rightarrow> []
         | Some f \<Rightarrow> if f = [] then [] else featureList f),
      isPrimary_plan = (is_primary d = Some True),
      createdAt =
        (case created_at d of
           None \<Rightarrow> None
         | Some c \<Rightarrow> if c = [] then None else Some (divide1000 (getTime e c)))\<rparr>"

text \<open>
  \<^verbatim>\<open>fetchPlans\<close> awaits the select; \<open>fetchPlans_resume\<close> is what it does once the answer
  is there. The \<^verbatim>\<open>catch\<close> block stores a message in \<open>error\<close> and calls no
  \<^verbatim>\<open>addToast\<close>. The store returns the rows of \<^verbatim>\<open>select('*')\<close> in table order.
\<close>

definition fetchPlans_resume :: "env \<Rightarrow> world \<Rightarrow> world" where
  "fetchPlans_resume e w =
     (if reportsError e w SelectPlans then w\<lparr>error := Some (js ''Failed to fetch plans.'')\<rparr>
      else w\<lparr>plans := sortPlans (map (toPlan e) (plans_table w)), error := None\<rparr>)"

definition fetchPlans :: "env \<Rightarrow> world \<Rightarrow> world" where
  "fetchPlans e w = fetchPlans_resume e (issue e SelectPlans w)"

definition toMedia :: "env \<Rightarrow> media_row \<Rightarrow> MediaItem" where
  "toMedia e d =
     \<lparr>id_media = id_mrow d, fileName = file_name d, url_media = url_mrow d,
      uploadedAt =
        (case uploaded_at d of
           None \<Rightarrow> Num 0
         | Some u \<Rightarrow> if u = [] then Num 0 else divide1000 (getTime e u))\<rparr>"

definition fetchMedia_resume :: "env \<Rightarrow> world \<Rightarrow> world" where
  "fetchMedia_resume e w =
     (if reportsError e w SelectMedia then w\<lparr>error := Some (js ''Failed to fetch media.'')\<rparr>
      else w\<lparr>mediaItems := map (toMedia e) (orderByUploadedAtDesc e (media_table w)),
             error := None\<rparr>)"

definition fetchMedia :: "env \<Rightarrow> world \<Rightarrow> world" where
  "fetchMedia e w = fetchMedia_resume e (issue e SelectMedia w)"

text \<open>
  The effect that runs when \<open>authReady\<close> changes: load both collections, then subscribe
  to the change notifications of both tables (the events \<open>PlansChanged\<close> and
  \<open>MediaChanged\<close> below). \<^verbatim>\<open>Promise.all\<close> starts both fetches, so both selects are
  issued at once, and each fetch resumes when its answer is there: the one with the
  smaller latency first. \<open>mounted\<close> is the flag that the clean-up of the effect clears.
\<close>

definition loadEffect :: "bool \<Rightarrow> env \<Rightarrow> world \<Rightarrow> world" where
  "loadEffect mounted e w =
     (if \<not> authReady w then w
      else
        let lp = latency e SelectPlans;
            lm = latency e SelectMedia;
            w0 = w\<lparr>loading := True, issued := issued w @ [SelectPlans, SelectMedia]\<rparr>;
            w1 =
              (if lp \<le> lm then
                 fetchMedia_resume e (elapse (lm - lp) (fetchPlans_resume e (elapse lp w0)))
               else
                 fetchPlans_resume e (elapse (lp - lm) (fetchMedia_resume e (elapse lm w0))))
        in if mounted then w1\<lparr>loading := False\<rparr> else w1)"

section \<open>Plans: add and prompt for deletion\<close>

datatype change =
    ChangeName jsstring
  | ChangePrice jsstring
  | ChangeFeatures jsstring
  | ChangeIsPrimary bool

fun handleNewPlanChange :: "change \<Rightarrow> world \<Rightarrow> world" where
  "handleNewPlanChange (ChangeName v) w = w\<lparr>newPlan := (newPlan w)\<lparr>name_new := v\<rparr>\<rparr>"
| "handleNewPlanChange (ChangePrice v) w = w\<lparr>newPlan := (newPlan w)\<lparr>price_new := v\<rparr>\<rparr>"
| "handleNewPlanChange (ChangeFeatures v) w = w\<lparr>newPlan := (newPlan w)\<lparr>features_new := v\<rparr>\<rparr>"
| "handleNewPlanChange (ChangeIsPrimary b) w = w\<lparr>newPlan := (newPlan w)\<lparr>isPrimary_new := b\<rparr>\<rparr>"

definition planPayload :: "env \<Rightarrow> world \<Rightarrow> plan_payload" where
  "planPayload e w =
     \<lparr>name_pl = trim (name_new (newPlan w)),
      price_pl = trim (price_new (newPlan w)),
      features_pl = normalizeFeatures (features_new (newPlan w)),
      is_primary_pl = isPrimary_new (newPlan w),
      created_at_pl = toISOString e (clock w)\<rparr>"

text \<open>The store adds the inserted row to the table under the identifier it assigns.\<close>

definition insertPlanRow :: "env \<Rightarrow> plan_payload \<Rightarrow> plan_row list \<Rightarrow> plan_row list" where
  "insertPlanRow e p tbl =
     tbl @ [\<lparr>id_prow = assigned_id e, name_prow = name_pl p, price_prow = price_pl p,
             features_prow = Some (features_pl p), is_primary = Some (is_primary_pl p),
             created_at = Some (created_at_pl p)\<rparr>]"

text \<open>
  The \<^verbatim>\<open>try\<close> block of \<^verbatim>\<open>handleAddPlan\<close>: what it throws, if anything, and the state
  it leaves.
\<close>

definition addPlan_try :: "env \<Rightarrow> world \<Rightarrow> thrown option \<times> world" where
  "addPlan_try e w =
     (let payload = planPayload e w;
          c = InsertPlan payload;
          w1 = issue e c w
      in if reportsError e w1 c then (Some (CallError c), w1)
         else
           let w2 = fetchPlans e (w1\<lparr>plans_table := insertPlanRow e payload (plans_table w1)\<rparr>);
               w3 = w2\<lparr>newPlan := emptyNewPlan\<rparr>
           in (None,
               addToast (js ''Plan '' @ dquote @ name_pl payload @ dquote @ js '' added successfully!'')
                 Success w3))"

definition handleAddPlan :: "env \<Rightarrow> world \<Rightarrow> world" where
  "handleAddPlan e w =
     (if \<not> isAdmin w then addToast (js ''Permission Denied: You must be an administrator.'') Error w
      else
        let w1 =
              (case addPlan_try e (w\<lparr>isAddingPlan := True\<rparr>) of
                 (None, w') \<Rightarrow> w'
               | (Some err, w') \<Rightarrow>
                   addToast (js ''Failed to add plan. Check Supabase RLS policies.'') Error w')
        in w1\<lparr>isAddingPlan := False\<rparr>)"

definition handleDeletePlanPrompt :: "HMSPlan \<Rightarrow> world \<Rightarrow> world" where
  "handleDeletePlanPrompt plan w =
     (if \<not> isAdmin w then w
      else w\<lparr>itemToDelete := Some \<lparr>id_item = id_plan plan, type_item = TPlan, name_item = name_plan plan\<rparr>,
             showDeleteModal := True\<rparr>)"

section \<open>Media: upload and prompt for deletion\<close>

definition handleFileChange :: "jsfile list \<Rightarrow> world \<Rightarrow> world" where
  "handleFileChange files w =
     (case files of
        f # rest \<Rightarrow> addToast (js ''File selected: '' @ name_file f) Info (w\<lparr>uploadFile := Some f\<rparr>)
      | [] \<Rightarrow> w\<lparr>uploadFile := None\<rparr>)"

text \<open>
  The simulated progress: \<^verbatim>\<open>for (let i = 0; i <= 100; i += 10)\<close>, with a wait of 50 ms
  in every round, during which the callbacks that fall due run.
\<close>

function progressLoop :: "nat \<Rightarrow> world \<Rightarrow> world" where
  "progressLoop i w =
     (if i \<le> 100 then progressLoop (i + 10) (elapse 50 (w\<lparr>uploadProgress := i\<rparr>))
      else w)"
  by pat_completeness auto
termination
  by (relation "measure (\<lambda>(i, w). 101 - i)") auto

declare progressLoop.simps [simp del]

definition insertMediaRow :: "env \<Rightarrow> media_payload \<Rightarrow> media_row list \<Rightarrow> media_row list" where
  "insertMediaRow e p tbl =
     tbl @ [\<lparr>id_mrow = assigned_id e, file_name = file_name_pl p, url_mrow = url_pl p,
             uploaded_at = Some (uploaded_at_pl p)\<rparr>]"

text \<open>\<^verbatim>\<open>err?.message || fallback\<close>.\<close>

fun messageOr :: "env \<Rightarrow> thrown \<Rightarrow> jsstring \<Rightarrow> jsstring" where
  "messageOr e (CallError c) fallback =
     (case errorMessage e c of
        None \<Rightarrow> fallback
      | Some m \<Rightarrow> if m = [] then fallback else m)"
| "messageOr e MediaNotFound fallback = js ''Media not found''"

text \<open>
  The \<^verbatim>\<open>try\<close> block of \<^verbatim>\<open>handleMediaUpload\<close>.
\<close>

definition mediaUpload_try :: "env \<Rightarrow> jsfile \<Rightarrow> world \<Rightarrow> thrown option \<times> world" where
  "mediaUpload_try e f w =
     (let safe = safeFileName (clock w) (name_file f);
          storagePath = STORAGE_PUBLIC_PATH @ js ''/'' @ safe;
          w1 = addToast (js ''Starting upload: '' @ name_file f @ js ''...'') Info w;
          c1 = Upload storagePath;
          w2 = issue e c1 w1
      in if reportsError e w2 c1 then (Some (CallError c1), w2)
         else
           let w3 = progressLoop 0 (w2\<lparr>bucket := bucket w2 @ [storagePath]\<rparr>);
               publicUrl = getPublicUrl e storagePath;
               row = \<lparr>file_name_pl = safe, url_pl = publicUrl,
                      uploaded_at_pl = toISOString e (clock w3)\<rparr>;
               c2 = InsertMedia row;
               w4 = issue e c2 w3
           in if reportsError e w4 c2 then (Some (CallError c2), w4)
              else
                let w5 = fetchMedia e (w4\<lparr>media_table := insertMediaRow e row (media_table w4)\<rparr>);
                    w6 = w5\<lparr>uploadFile := None\<rparr>
                in (None,
                    addToast (js ''Image '' @ dquote @ name_file f @ dquote @ js '' uploaded successfully!'')
                      Success w6))"

definition handleMediaUpload :: "env \<Rightarrow> world \<Rightarrow> world" where
  "handleMediaUpload e w =
     (if \<not> isAdmin w then addToast (js ''Permission Denied: You must be an administrator.'') Error w
      else
        case uploadFile w of
          None \<Rightarrow> addToast (js ''Please select a file to upload.'') Error w
        | Some f \<Rightarrow>
            let w0 = w\<lparr>isUploading := True, uploadProgress := 0, error := None\<rparr>;
                w1 =
                  (case mediaUpload_try e f w0 of
                     (None, w') \<Rightarrow> w'
                   | (Some err, w') \<Rightarrow>
                       addToast (messageOr e err (js ''Upload failed. Check storage policies.'')) Error w')
            in w1\<lparr>isUploading := False,
                  timers := timers w1 @ [(clock w1 + 500, ResetProgress)],
                  fileInputValue := []\<rparr>)"

definition handleDeleteMediaPrompt :: "MediaItem \<Rightarrow> world \<Rightarrow> world" where
  "handleDeleteMediaPrompt mediaItem w =
     (if \<not> isAdmin w then w
      else w\<lparr>itemToDelete :=
               Some \<lparr>id_item = id_media mediaItem, type_item = TMedia, name_item = fileName mediaItem\<rparr>,
             showDeleteModal := True\<rparr>)"

section \<open>Confirmation modal and deletion\<close>

text \<open>The modal is rendered, with its two buttons, only in this case.\<close>

definition DeleteConfirmationModal :: "world \<Rightarrow> ItemToDelete option" where
  "DeleteConfirmationModal w =
     (if \<not> showDeleteModal w \<or> itemToDelete w = None then None else itemToDelete w)"

text \<open>The Cancel button: \<^verbatim>\<open>() => setShowDeleteModal(false)\<close>.\<close>

definition cancelDeletion :: "world \<Rightarrow> world" where
  "cancelDeletion w = w\<lparr>showDeleteModal := False\<rparr>"

fun typeName :: "item_type \<Rightarrow> jsstring" where
  "typeName TPlan = js ''plan''"
| "typeName TMedia = js ''media''"

text \<open>
  The \<^verbatim>\<open>try\<close> block of \<^verbatim>\<open>confirmDeletion\<close>. The look-up throws the error of the
  call, or \<^verbatim>\<open>new Error('Media not found')\<close> when there is no error and no row;
  \<^verbatim>\<open>delete().eq('id', id)\<close> removes the matching rows and \<^verbatim>\<open>remove([filePath])\<close> the
  object at the path, if any.
\<close>

definition confirmDeletion_try :: "env \<Rightarrow> ItemToDelete \<Rightarrow> world \<Rightarrow> thrown option \<times> world" where
  "confirmDeletion_try e item w =
     (case type_item item of
        TPlan \<Rightarrow>
          let c = DeletePlan (id_item item);
              w1 = issue e c w
          in if reportsError e w1 c then (Some (CallError c), w1)
             else
               let w2 = fetchPlans e
                          (w1\<lparr>plans_table := filter (\<lambda>d. id_prow d \<noteq> id_item item) (plans_table w1)\<rparr>)
               in (None,
                   addToast (js ''Plan '' @ dquote @ name_item item @ dquote @ js '' deleted successfully!'')
                     Success w2)
      | TMedia \<Rightarrow>
          let c1 = SelectFileName (id_item item);
              w1 = issue e c1 w
          in if reportsError e w1 c1 then (Some (CallError c1), w1)
             else
               (case filter (\<lambda>d. id_mrow d = id_item item) (media_table w1) of
                 [itemData] \<Rightarrow>
                   let filePath = STORAGE_PUBLIC_PATH @ js ''/'' @ file_name itemData;
                       c2 = Remove filePath;
                       w2 = issue e c2 w1
                   in if reportsError e w2 c2 then (Some (CallError c2), w2)
                      else
                        let w3 = w2\<lparr>bucket := filter (\<lambda>p. p \<noteq> filePath) (bucket w2)\<rparr>;
                            c3 = DeleteMedia (id_item item);
                            w4 = issue e c3 w3
                        in if reportsError e w4 c3 then (Some (CallError c3), w4)
                           else
                             let w5 = fetchMedia e
                                        (w4\<lparr>media_table :=
                                              filter (\<lambda>d. id_mrow d \<noteq> id_item item) (media_table w4)\<rparr>)
                             in (None,
                                 addToast
                                   (js ''Media '' @ dquote @ name_item item @ dquote @
                                    js '' deleted successfully!'')
                                   Success w5)
               | other \<Rightarrow> (Some MediaNotFound, w1)))"

text \<open>
  \<^verbatim>\<open>confirmDeletion\<close>, the Delete button of the modal. The permission check returns
  before the \<^verbatim>\<open>try\<close>, so \<^verbatim>\<open>finally\<close> does not run there.
\<close>

definition confirmDeletion :: "env \<Rightarrow> world \<Rightarrow> world" where
  "confirmDeletion e w =
     (case itemToDelete w of
        None \<Rightarrow> w
      | Some item \<Rightarrow>
          let w0 = w\<lparr>showDeleteModal := False\<rparr>
          in if \<not> isAdmin w then
               addToast (js ''Permission Denied: You must be an administrator.'') Error w0
             else
               let w1 =
                     (case confirmDeletion_try e item w0 of
                        (None, w') \<Rightarrow> w'
                      | (Some err, w') \<Rightarrow>
                          addToast
                            (js ''Failed to delete '' @ typeName (type_item item) @ js '' '' @ dquote @
                             name_item item @ dquote @ js ''. Check RLS.'')
                            Error w')
               in w1\<lparr>itemToDelete := None\<rparr>)"

section \<open>Events\<close>

text \<open>
  What can happen to the mounted dashboard: the load effect, a change notification of
  either table, a user action, or time passing. Each event comes with the environment it meets. Events
  are taken in any order; the rendering gates only remove possibilities.
\<close>

datatype event =
    Load
  | PlansChanged
  | MediaChanged
  | NewPlanChange change
  | AddPlan
  | DeletePlanPrompt HMSPlan
  | FileChange "jsfile list"
  | MediaUpload
  | DeleteMediaPrompt MediaItem
  | CancelDeletion
  | ConfirmDeletion
  | RemoveToast jsstring
  | Elapse nat

fun handle :: "env \<Rightarrow> event \<Rightarrow> world \<Rightarrow> world" where
  "handle e Load w = loadEffect True e w"
| "handle e PlansChanged w = fetchPlans e w"
| "handle e MediaChanged w = fetchMedia e w"
| "handle e (NewPlanChange c) w = handleNewPlanChange c w"
| "handle e AddPlan w = handleAddPlan e w"
| "handle e (DeletePlanPrompt p) w = handleDeletePlanPrompt p w"
| "handle e (FileChange fs) w = handleFileChange fs w"
| "handle e MediaUpload w = handleMediaUpload e w"
| "handle e (DeleteMediaPrompt m) w = handleDeleteMediaPrompt m w"
| "handle e CancelDeletion w = cancelDeletion w"
| "handle e ConfirmDeletion w = confirmDeletion e w"
| "handle e (RemoveToast i) w = removeToast i w"
| "handle e (Elapse d) w = elapse d w"

fun run :: "(env \<times> event) list \<Rightarrow> world \<Rightarrow> world" where
  "run [] w = w"
| "run ((e, ev) # rest) w = run rest (handle e ev w)"

section \<open>Characters of a stored file name\<close>

text \<open>The characters that sanitization can produce.\<close>

definition safeChar :: "code_unit \<Rightarrow> bool" where
  "safeChar c \<longleftrightarrow> isLower c \<or> isDigit c \<or> isDot c \<or> c = 0x5F"

section \<open>Auxiliary notions and example states\<close>

text \<open>The session check returned a user.\<close>

fun returnsUser :: "session_result \<Rightarrow> bool" where
  "returnsUser (SessionReturns (Some u)) = True"
| "returnsUser r = False"

text \<open>
  No call was issued, and neither the remote store nor the two in-memory collections
  changed, between \<open>w\<close> and \<open>w'\<close>.
\<close>

definition untouched :: "world \<Rightarrow> world \<Rightarrow> bool" where
  "untouched w w' \<longleftrightarrow>
     issued w' = issued w \<and> plans_table w' = plans_table w \<and> media_table w' = media_table w \<and>
     bucket w' = bucket w \<and> plans w' = plans w \<and> mediaItems w' = mediaItems w"

definition threePlans :: "HMSPlan list" where
  "threePlans =
     [\<lparr>id_plan = js ''1'', name_plan = js ''Pro'', price_plan = js ''$20'', features_plan = [],
       isPrimary_plan = False, createdAt = Some (Num 5)\<rparr>,
      \<lparr>id_plan = js ''2'', name_plan = js ''Plus'', price_plan = js ''$30'', features_plan = [],
       isPrimary_plan = True, createdAt = Some (Num 9)\<rparr>,
      \<lparr>id_plan = js ''3'', name_plan = js ''Max'', price_plan = js ''Contact'', features_plan = [],
       isPrimary_plan = True, createdAt = Some (Num 2)\<rparr>]"

text \<open>
  Between \<open>w\<close> and \<open>w'\<close> no delete or remove call was issued, and no row and no
  stored object went away.
\<close>

definition nothingDeleted :: "world \<Rightarrow> world \<Rightarrow> bool" where
  "nothingDeleted w w' \<longleftrightarrow>
     filter isDelete (issued w') = filter isDelete (issued w) \<and>
     set (plans_table w) \<subseteq> set (plans_table w') \<and>
     set (media_table w) \<subseteq> set (media_table w') \<and>
     set (bucket w) \<subseteq> set (bucket w')"

fun isRemove :: "call \<Rightarrow> bool" where
  "isRemove (Remove p) = True"
| "isRemove c = False"

text \<open>An environment in which no call fails, and a state of an administrator's dashboard.\<close>

definition exampleEnv :: env where
  "exampleEnv =
     \<lparr>fails = (\<lambda>c. False), latency = (\<lambda>c. 3), assigned_id = js ''id9'',
      orderByUploadedAtDesc = (\<lambda>rows. rows), getPublicUrl = (\<lambda>p. js ''https://cdn/'' @ p),
      errorMessage = (\<lambda>c. None), getTime = (\<lambda>s. NaN), toISOString = toString\<rparr>"

definition examplePlanRow :: plan_row where
  "examplePlanRow =
     \<lparr>id_prow = js ''id1'', name_prow = js ''Pro'', price_prow = js ''$20'',
      features_prow = Some (js ''Backups''), is_primary = Some True, created_at = None\<rparr>"

definition exampleMediaRow :: media_row where
  "exampleMediaRow =
     \<lparr>id_mrow = js ''id2'', file_name = js ''1_a.png'', url_mrow = js ''https://cdn/public/media/1_a.png'',
      uploaded_at = None\<rparr>"

definition exampleWorld :: world where
  "exampleWorld =
     (initialWorld [examplePlanRow] [exampleMediaRow] [js ''public/media/1_a.png''] 7)
       \<lparr>plans := [toPlan exampleEnv examplePlanRow],
        mediaItems := [toMedia exampleEnv exampleMediaRow],
        loading := False, authReady := True, isAdmin := True,
        newPlan := \<lparr>name_new = js ''Basic'', price_new = js ''$10'',
                    features_new = js ''Wifi, Support'', isPrimary_new = False\<rparr>,
        uploadFile := Some \<lparr>name_file = js ''My Photo!.png''\<rparr>\<rparr>"

definition promptAndCancel :: "(env \<times> event) list" where
  "promptAndCancel =
     [(exampleEnv, DeleteMediaPrompt (toMedia exampleEnv exampleMediaRow)),
      (exampleEnv, CancelDeletion),
      (exampleEnv, AddPlan),
      (exampleEnv, DeletePlanPrompt (toPlan exampleEnv examplePlanRow))]"

text \<open>The calls issued between \<open>w\<close> and \<open>w'\<close>.\<close>

definition newCalls :: "world \<Rightarrow> world \<Rightarrow> call list" where
  "newCalls w w' = drop (length (issued w)) (issued w')"

text \<open>The two select-all calls, which only \<^verbatim>\<open>fetchPlans\<close> and \<^verbatim>\<open>fetchMedia\<close> issue.\<close>

fun isRefetch :: "call \<Rightarrow> bool" where
  "isRefetch SelectPlans = True"
| "isRefetch SelectMedia = True"
| "isRefetch c = False"

text \<open>
  Between \<open>w\<close> and \<open>w'\<close> the backend reported an error for a call that the operation
  issued itself, not through a re-fetch.
\<close>

definition directFailure :: "env \<Rightarrow> world \<Rightarrow> world \<Rightarrow> bool" where
  "directFailure e w w' \<longleftrightarrow> list_ex (\<lambda>c. reportsError e w c \<and> \<not> isRefetch c) (newCalls w w')"

text \<open>Environments in which every call fails, and in which the select-all calls fail.\<close>

definition failAll :: env where
  "failAll = exampleEnv\<lparr>fails := (\<lambda>c. True)\<rparr>"

definition failRefetch :: env where
  "failRefetch = exampleEnv\<lparr>fails := isRefetch\<rparr>"


definition pendingWorld :: world where
  "pendingWorld = handleDeleteMediaPrompt (toMedia exampleEnv exampleMediaRow) exampleWorld"

text \<open>The number that a string of decimal digits denotes.\<close>

definition decimalValue :: "jsstring \<Rightarrow> nat" where
  "decimalValue s = foldl (\<lambda>a c. 10 * a + (unat c - 48)) 0 s"

text \<open>
  An environment in which every call takes six seconds and the storage remove fails, and
  the dashboard with the modal open on the media item and one toast on screen.
\<close>

definition slowEnv :: env where
  "slowEnv = exampleEnv\<lparr>fails := isRemove, latency := (\<lambda>c. 6000)\<rparr>"

definition toastedWorld :: world where
  "toastedWorld = addToast (js ''File selected: a.png'') Info pendingWorld"

text \<open>An environment in which only the select-all of the plans fails.\<close>

fun isSelectPlans :: "call \<Rightarrow> bool" where
  "isSelectPlans SelectPlans = True"
| "isSelectPlans c = False"

definition failPlans :: env where
  "failPlans = exampleEnv\<lparr>fails := isSelectPlans\<rparr>"

section \<open>Properties of the string functions\<close>

lemma isUpper_lower: "isUpper c \<Longrightarrow> isLower (c + 0x20)"
  unfolding isUpper_def isLower_def by (unat_arith, simp_all)

lemma allowed_ascii: "allowed c \<Longrightarrow> c < 0x80"
  unfolding allowed_def isLower_def isUpper_def isDigit_def isDot_def by unat_arith

text \<open>The argument of \<open>toLowerCase\<close> in \<open>safeFileName\<close> is ASCII.\<close>

lemma replaceDisallowed_ascii: "list_all (\<lambda>c. c < 0x80) (replaceDisallowed s)"
  by (induction s) (simp_all add: replaceDisallowed_def allowed_ascii)

lemma digitChar_isDigit:
  assumes "d < 10"
  shows "isDigit (digitChar d)"
proof -
  from assms have "d \<in> {0, 1, 2, 3, 4, 5, 6, 7, 8, 9}" by auto
  then show ?thesis by (auto simp: isDigit_def digitChar_def)
qed

lemma digits_isDigit: "list_all isDigit (digits n)"
proof (induction n rule: digits.induct)
  case (1 n)
  show ?case
  proof (cases "n < 10")
    case True
    then show ?thesis by (simp add: digits.simps [of n] digitChar_isDigit)
  next
    case False
    then have "list_all isDigit (digits (n div 10))" using 1 by simp
    moreover have "isDigit (digitChar (n mod 10))" by (simp add: digitChar_isDigit)
    ultimately show ?thesis using False by (simp add: digits.simps [of n])
  qed
qed

lemma digits_small: "n < 10 \<Longrightarrow> digits n = [digitChar n]"
  by (simp add: digits.simps [of n])

lemma digits_step: "10 \<le> n \<Longrightarrow> digits n = digits (n div 10) @ [digitChar (n mod 10)]"
  by (simp add: digits.simps [of n])

lemma unat_digitChar:
  assumes "d < 10"
  shows "unat (digitChar d) = 48 + d"
proof -
  from assms have "d \<in> {0, 1, 2, 3, 4, 5, 6, 7, 8, 9}" by auto
  then show ?thesis by (auto simp: digitChar_def)
qed

lemma decimalValue_snoc: "decimalValue (s @ [c]) = 10 * decimalValue s + (unat c - 48)"
  by (simp add: decimalValue_def)

text \<open>The digits of \<open>n\<close> denote \<open>n\<close>.\<close>

lemma decimalValue_digits: "decimalValue (digits n) = n"
proof (induction n rule: digits.induct)
  case (1 n)
  show ?case
  proof (cases "n < 10")
    case True
    then show ?thesis by (simp add: digits_small decimalValue_def unat_digitChar)
  next
    case False
    then have "decimalValue (digits (n div 10)) = n div 10" using 1 by simp
    then show ?thesis
      using False by (simp add: digits_step decimalValue_snoc unat_digitChar)
  qed
qed

lemma toString_nat: "toString (int n) = digits n"
  by (simp add: toString_def)

lemma toString_examples:
  "toString 0 = js ''0''" "toString 7 = js ''7''"
  "toString 1700000000123 = js ''1700000000123''"
  by (simp_all add: toString_def digits_small digits_step digitChar_def js_def)

lemma sanitized_safeChar: "list_all safeChar (toLowerCase (replaceDisallowed name))"
  by (induction name)
     (auto simp: toLowerCase_def replaceDisallowed_def safeChar_def allowed_def isUpper_lower)



text \<open>
  C7, as stated: every character of the sanitized name is a letter, a digit or a dot.
  It fails for \<^verbatim>\<open>My Photo!.png\<close>: the replacement character is the underscore, and
  the stored name has one more underscore after the time stamp.
\<close>

theorem safeFileName_not_alphanumeric:
  "\<not> list_all allowed (toLowerCase (replaceDisallowed (js ''My Photo!.png''))) \<and>
   \<not> list_all allowed (safeFileName 7 (js ''My Photo!.png''))"
  by code_simp

text \<open>
  C7, amended: every character of the sanitized name is a lower-case ASCII letter, a
  digit, a dot or an underscore, and so is every character of the stored file name when
  the clock reading is not negative.
\<close>

theorem safeFileName_chars:
  "list_all safeChar (toLowerCase (replaceDisallowed name)) \<and>
   (0 \<le> t \<longrightarrow> list_all safeChar (safeFileName t name))"
proof -
  have d: "list_all safeChar (digits n)" for n
    using digits_isDigit [of n] by (simp add: list_all_iff safeChar_def)
  have u: "list_all safeChar (js ''_'')" by (simp add: js_def safeChar_def)
  have "list_all safeChar (safeFileName t name)" if "0 \<le> t"
    using that d u sanitized_safeChar [of name] by (simp add: safeFileName_def toString_def)
  then show ?thesis using sanitized_safeChar by blast
qed

theorem safeFileName_chars_witness:
  "(0::int) \<le> 7 \<and> list_all safeChar (safeFileName 7 (js ''My Photo!.png''))"
  using safeFileName_chars [of "js ''My Photo!.png''" 7] by simp

text \<open>
  C10. The identifier of a toast is the decimal form of the clock reading at insertion
  (\<^verbatim>\<open>1700000000123\<close> at the reading 1700000000123; digits that denote \<open>n\<close> at a reading
  \<open>n\<close> that is not negative), and its removal is scheduled 5000 ms later under that
  identifier. Two toasts inserted at the same clock reading get the same identifier.
  Removal by identifier, by \<^verbatim>\<open>removeToast\<close> or by the scheduled callback, keeps exactly
  the toasts with another identifier, so it removes both.
\<close>

theorem toast_ids_collide:
  "toasts (addToast m1 ty1 w) =
     toasts w @ [\<lparr>id_toast = toString (clock w), message = m1, type_toast = ty1\<rparr>] \<and>
   timers (addToast m1 ty1 w) =
     timers w @ [(clock w + 5000, ExpireToast (toString (clock w)))] \<and>
   toasts (addToast m2 ty2 (addToast m1 ty1 w)) =
     toasts w @ [\<lparr>id_toast = toString (clock w), message = m1, type_toast = ty1\<rparr>,
                 \<lparr>id_toast = toString (clock w), message = m2, type_toast = ty2\<rparr>] \<and>
   toasts (removeToast i w) = filter (\<lambda>toast. id_toast toast \<noteq> i) (toasts w) \<and>
   toasts (runCallback (ExpireToast i) w) = filter (\<lambda>toast. id_toast toast \<noteq> i) (toasts w) \<and>
   filter (\<lambda>toast. id_toast toast = i) (toasts (removeToast i w)) = [] \<and>
   filter (\<lambda>toast. id_toast toast = i) (toasts (runCallback (ExpireToast i) w)) = [] \<and>
   toasts (removeToast (toString (clock w)) (addToast m2 ty2 (addToast m1 ty1 w))) =
     filter (\<lambda>toast. id_toast toast \<noteq> toString (clock w)) (toasts w) \<and>
   id_toast (last (toasts (addToast m1 ty1 (w\<lparr>clock := 1700000000123\<rparr>)))) = js ''1700000000123'' \<and>
   decimalValue (id_toast (last (toasts (addToast m1 ty1 (w\<lparr>clock := int n\<rparr>))))) = n \<and>
   map id_toast (toasts (addToast m2 ty2 (addToast m1 ty1 exampleWorld))) = [js ''7'', js ''7''] \<and>
   toasts (removeToast (js ''7'') (addToast m2 ty2 (addToast m1 ty1 exampleWorld))) = []"
proof -
  have "clock exampleWorld = 7" "toasts exampleWorld = []"
    by (simp_all add: exampleWorld_def initialWorld_def)
  then show ?thesis
    by (simp add: addToast_def removeToast_def Let_def toString_examples toString_nat
        decimalValue_digits)
qed

section \<open>Passing time\<close>

text \<open>
  Running callbacks, and so letting time pass, only takes toasts away and resets the
  progress; it issues no call and changes neither the store nor the collections.
\<close>

lemma fold_runCallback_frame:
  "isAdmin (fold (\<lambda>timer. runCallback (snd timer)) cbs w) = isAdmin w \<and>
   authReady (fold (\<lambda>timer. runCallback (snd timer)) cbs w) = authReady w \<and>
   clock (fold (\<lambda>timer. runCallback (snd timer)) cbs w) = clock w \<and>
   untouched w (fold (\<lambda>timer. runCallback (snd timer)) cbs w)"
proof (induction cbs arbitrary: w)
  case Nil
  show ?case by (simp add: untouched_def)
next
  case (Cons cb cbs)
  have "isAdmin (runCallback (snd cb) w) = isAdmin w \<and>
        authReady (runCallback (snd cb) w) = authReady w \<and>
        clock (runCallback (snd cb) w) = clock w \<and> untouched w (runCallback (snd cb) w)"
    by (cases "snd cb") (simp_all add: untouched_def)
  with Cons [of "runCallback (snd cb) w"] show ?case by (simp add: untouched_def)
qed

lemma elapse_frame:
  "isAdmin (elapse d w) = isAdmin w \<and> authReady (elapse d w) = authReady w \<and>
   clock (elapse d w) = clock w + int d \<and> untouched w (elapse d w)"
  unfolding elapse_def Let_def
  using fold_runCallback_frame
    [of _ "w\<lparr>clock := clock w + int d,
              timers := filter (\<lambda>timer. \<not> fst timer \<le> clock w + int d) (timers w)\<rparr>"]
  by (simp add: untouched_def)

lemma elapse_fields:
  "isAdmin (elapse d w) = isAdmin w" "authReady (elapse d w) = authReady w"
  "clock (elapse d w) = clock w + int d" "issued (elapse d w) = issued w"
  "plans_table (elapse d w) = plans_table w" "media_table (elapse d w) = media_table w"
  "bucket (elapse d w) = bucket w" "plans (elapse d w) = plans w"
  "mediaItems (elapse d w) = mediaItems w"
  using elapse_frame [of d w] by (simp_all add: untouched_def)

lemma subseq_fold_runCallback:
  "subseq (toasts (fold (\<lambda>timer. runCallback (snd timer)) cbs w)) (toasts w)"
proof (induction cbs arbitrary: w)
  case Nil
  show ?case by simp
next
  case (Cons cb cbs)
  have "subseq (toasts (runCallback (snd cb) w)) (toasts w)"
    by (cases "snd cb") simp_all
  with Cons [of "runCallback (snd cb) w"] show ?case
    by (auto intro: subseq_order.trans)
qed

text \<open>The toasts after some time are toasts from before, in their order.\<close>

lemma subseq_elapse: "subseq (toasts (elapse d w)) (toasts w)"
  unfolding elapse_def Let_def
  using subseq_fold_runCallback
    [of _ "w\<lparr>clock := clock w + int d,
              timers := filter (\<lambda>timer. \<not> fst timer \<le> clock w + int d) (timers w)\<rparr>"]
  by simp

lemma subseq_elapse_trans: "subseq (toasts w) ts \<Longrightarrow> subseq (toasts (elapse d w)) ts"
  using subseq_elapse [of d w] by (rule subseq_order.trans)

text \<open>Time passes in the same way whatever the log of calls and the modal flag are.\<close>

lemma fold_runCallback_commute:
  "fold (\<lambda>timer. runCallback (snd timer)) cbs (w\<lparr>issued := x\<rparr>) =
     (fold (\<lambda>timer. runCallback (snd timer)) cbs w)\<lparr>issued := x\<rparr> \<and>
   fold (\<lambda>timer. runCallback (snd timer)) cbs (w\<lparr>showDeleteModal := b\<rparr>) =
     (fold (\<lambda>timer. runCallback (snd timer)) cbs w)\<lparr>showDeleteModal := b\<rparr>"
proof (induction cbs arbitrary: w)
  case Nil
  show ?case by simp
next
  case (Cons cb cbs)
  have "runCallback (snd cb) (w\<lparr>issued := x\<rparr>) = (runCallback (snd cb) w)\<lparr>issued := x\<rparr> \<and>
        runCallback (snd cb) (w\<lparr>showDeleteModal := b\<rparr>) =
          (runCallback (snd cb) w)\<lparr>showDeleteModal := b\<rparr>"
    by (cases "snd cb") simp_all
  with Cons [of "runCallback (snd cb) w"] show ?case by simp
qed

lemma fold_runCallback_commute_issued:
  "fold (\<lambda>timer. runCallback (snd timer)) cbs (w\<lparr>issued := x, clock := t, timers := r\<rparr>) =
     (fold (\<lambda>timer. runCallback (snd timer)) cbs (w\<lparr>clock := t, timers := r\<rparr>))\<lparr>issued := x\<rparr>"
proof -
  have eq: "w\<lparr>issued := x, clock := t, timers := r\<rparr> = (w\<lparr>clock := t, timers := r\<rparr>)\<lparr>issued := x\<rparr>"
    by (cases w) simp
  show ?thesis
    unfolding eq by (rule fold_runCallback_commute [THEN conjunct1])
qed

lemma fold_runCallback_commute_modal:
  "fold (\<lambda>timer. runCallback (snd timer)) cbs
     (w\<lparr>showDeleteModal := b, clock := t, timers := r\<rparr>) =
     (fold (\<lambda>timer. runCallback (snd timer)) cbs (w\<lparr>clock := t, timers := r\<rparr>))
       \<lparr>showDeleteModal := b\<rparr>"
proof -
  have eq: "w\<lparr>showDeleteModal := b, clock := t, timers := r\<rparr> =
            (w\<lparr>clock := t, timers := r\<rparr>)\<lparr>showDeleteModal := b\<rparr>"
    by (cases w) simp
  show ?thesis
    unfolding eq by (rule fold_runCallback_commute [THEN conjunct2])
qed

lemma elapse_commute:
  "elapse d (w\<lparr>issued := x\<rparr>) = (elapse d w)\<lparr>issued := x\<rparr>"
  "elapse d (w\<lparr>showDeleteModal := b\<rparr>) = (elapse d w)\<lparr>showDeleteModal := b\<rparr>"
  by (simp_all add: elapse_def Let_def fold_runCallback_commute_issued
      fold_runCallback_commute_modal)

lemma progressLoop_frame:
  "isAdmin (progressLoop i w) = isAdmin w \<and> authReady (progressLoop i w) = authReady w \<and>
   untouched w (progressLoop i w) \<and> subseq (toasts (progressLoop i w)) (toasts w)"
proof (induction i w rule: progressLoop.induct)
  case (1 i w)
  show ?case
  proof (cases "i \<le> 100")
    case True
    let ?w = "elapse 50 (w\<lparr>uploadProgress := i\<rparr>)"
    have step: "progressLoop i w = progressLoop (i + 10) ?w"
      using True by (simp add: progressLoop.simps [of i w])
    have "subseq (toasts ?w) (toasts w)"
      using subseq_elapse [of 50 "w\<lparr>uploadProgress := i\<rparr>"] by simp
    with 1 [OF True] show ?thesis
      unfolding step by (auto simp: untouched_def elapse_fields intro: subseq_order.trans)
  next
    case False
    then show ?thesis by (simp add: progressLoop.simps [of i w] untouched_def)
  qed
qed

lemma progressLoop_fields:
  "isAdmin (progressLoop i w) = isAdmin w" "authReady (progressLoop i w) = authReady w"
  "issued (progressLoop i w) = issued w"
  "plans_table (progressLoop i w) = plans_table w" "media_table (progressLoop i w) = media_table w"
  "bucket (progressLoop i w) = bucket w" "plans (progressLoop i w) = plans w"
  "mediaItems (progressLoop i w) = mediaItems w"
  using progressLoop_frame [of i w] by (simp_all add: untouched_def)

lemma subseq_progressLoop_trans:
  "subseq (toasts w) ts \<Longrightarrow> subseq (toasts (progressLoop i w)) ts"
  using progressLoop_frame [of i w] by (auto intro: subseq_order.trans)

lemmas handler_defs =
  reportsError_def loadEffect_def fetchPlans_def fetchPlans_resume_def fetchMedia_def
  fetchMedia_resume_def issue_def Let_def handleAddPlan_def addPlan_try_def addToast_def
  handleDeletePlanPrompt_def handleFileChange_def handleMediaUpload_def mediaUpload_try_def
  handleDeleteMediaPrompt_def cancelDeletion_def confirmDeletion_def confirmDeletion_try_def
  removeToast_def elapse_fields progressLoop_fields

section \<open>Sorting\<close>

lemma mset_insertBy: "mset (insertBy cmp a bs) = add_mset a (mset bs)"
  by (induction bs) simp_all

lemma mset_sortBy: "mset (sortBy cmp xs) = mset xs"
  by (induction xs) (simp_all add: sortBy_def mset_insertBy)

lemma set_insertBy: "set (insertBy cmp a bs) = insert a (set bs)"
  using mset_insertBy [of cmp a bs, THEN arg_cong, of set_mset] by simp

text \<open>The comparison function is consistent: it is a total preorder.\<close>

lemma comparePlans_total: "comparePlans a b > 0 \<Longrightarrow> comparePlans b a \<le> 0"
  by (auto simp: comparePlans_def split: if_splits)

lemma comparePlans_trans:
  "comparePlans a b \<le> 0 \<Longrightarrow> comparePlans b c \<le> 0 \<Longrightarrow> comparePlans a c \<le> 0"
  by (auto simp: comparePlans_def split: if_splits)

lemma sorted_insertBy:
  assumes "sorted_wrt (\<lambda>a b. comparePlans a b \<le> 0) bs"
  shows "sorted_wrt (\<lambda>a b. comparePlans a b \<le> 0) (insertBy comparePlans a bs)"
  using assms
proof (induction bs)
  case Nil
  show ?case by simp
next
  case (Cons b bs)
  show ?case
  proof (cases "comparePlans a b > 0")
    case True
    then have "comparePlans b a \<le> 0" by (rule comparePlans_total)
    with True Cons show ?thesis by (auto simp: set_insertBy)
  next
    case False
    then have ab: "comparePlans a b \<le> 0" by simp
    have "comparePlans a x \<le> 0" if "x \<in> set bs" for x
      using that Cons.prems ab comparePlans_trans [of a b x] by auto
    with False ab Cons.prems show ?thesis by auto
  qed
qed

lemma sorted_sortPlans: "sorted_wrt (\<lambda>a b. comparePlans a b \<le> 0) (sortPlans ps)"
  unfolding sortPlans_def
  by (induction ps) (simp_all add: sortBy_def sorted_insertBy)

lemma mset_sortPlans: "mset (sortPlans ps) = mset ps"
  by (simp add: sortPlans_def mset_sortBy)

lemma comparePlans_le_iff:
  "comparePlans a b \<le> 0 \<longleftrightarrow>
     (isPrimary_plan b \<longrightarrow> isPrimary_plan a) \<and>
     (isPrimary_plan a = isPrimary_plan b \<longrightarrow>
        secondsOr0 (createdAt a) \<le> secondsOr0 (createdAt b))"
  by (auto simp: comparePlans_def)

lemma fetchPlans_plans:
  "plans (fetchPlans e w) =
     (if fails e SelectPlans then plans w else sortPlans (map (toPlan e) (plans_table w)))"
  by (simp add: fetchPlans_def fetchPlans_resume_def issue_def reportsError_def elapse_fields)

text \<open>
  C1. A successful \<^verbatim>\<open>fetchPlans\<close> stores the sorted list of the fetched plans. For
  every plan list the sort returns a permutation in which no plan without the primary
  flag comes before a plan with it, and in which, of two plans with the same flag, the
  one further to the front has the earlier (or the same) creation time, where the
  creation time is \<^verbatim>\<open>createdAt?.seconds || 0\<close> as in the comparison function. In
  particular, when two plans with the same flag have the creation times \<open>r\<close> and \<open>s\<close>
  and the one created at \<open>r\<close> stands before the other, then \<open>r \<le> s\<close>.
\<close>

theorem sortPlans_order:
  "plans (fetchPlans e w) =
     (if fails e SelectPlans then plans w else sortPlans (map (toPlan e) (plans_table w))) \<and>
   mset (sortPlans ps) = mset ps \<and>
   (\<forall>i j. i < j \<and> j < length (sortPlans ps) \<longrightarrow>
      (isPrimary_plan (sortPlans ps ! j) \<longrightarrow> isPrimary_plan (sortPlans ps ! i)) \<and>
      (isPrimary_plan (sortPlans ps ! i) = isPrimary_plan (sortPlans ps ! j) \<longrightarrow>
         secondsOr0 (createdAt (sortPlans ps ! i)) \<le> secondsOr0 (createdAt (sortPlans ps ! j)))) \<and>
   (\<forall>i j r s. i < j \<and> j < length (sortPlans ps) \<and>
      isPrimary_plan (sortPlans ps ! i) = isPrimary_plan (sortPlans ps ! j) \<and>
      createdAt (sortPlans ps ! i) = Some (Num r) \<and> createdAt (sortPlans ps ! j) = Some (Num s) \<longrightarrow>
      r \<le> s)"
proof -
  have "comparePlans (sortPlans ps ! i) (sortPlans ps ! j) \<le> 0"
    if "i < j" "j < length (sortPlans ps)" for i j
    using sorted_sortPlans [of ps] that by (simp add: sorted_wrt_iff_nth_less)
  then have key: "\<forall>i j. i < j \<and> j < length (sortPlans ps) \<longrightarrow>
      (isPrimary_plan (sortPlans ps ! j) \<longrightarrow> isPrimary_plan (sortPlans ps ! i)) \<and>
      (isPrimary_plan (sortPlans ps ! i) = isPrimary_plan (sortPlans ps ! j) \<longrightarrow>
         secondsOr0 (createdAt (sortPlans ps ! i)) \<le> secondsOr0 (createdAt (sortPlans ps ! j)))"
    unfolding comparePlans_le_iff by blast
  have "r \<le> s"
    if "i < j" "j < length (sortPlans ps)"
      "isPrimary_plan (sortPlans ps ! i) = isPrimary_plan (sortPlans ps ! j)"
      "createdAt (sortPlans ps ! i) = Some (Num r)" "createdAt (sortPlans ps ! j) = Some (Num s)"
    for i j r s
  proof -
    from key that(1-3)
    have "secondsOr0 (createdAt (sortPlans ps ! i)) \<le> secondsOr0 (createdAt (sortPlans ps ! j))"
      by blast
    with that(4,5) show ?thesis by simp
  qed
  then have "\<forall>i j r s. i < j \<and> j < length (sortPlans ps) \<and>
      isPrimary_plan (sortPlans ps ! i) = isPrimary_plan (sortPlans ps ! j) \<and>
      createdAt (sortPlans ps ! i) = Some (Num r) \<and> createdAt (sortPlans ps ! j) = Some (Num s) \<longrightarrow>
      r \<le> s"
    by blast
  with key show ?thesis using fetchPlans_plans mset_sortPlans by blast
qed

text \<open>
  Of the three plans, Pro (not primary, created at 5), Plus (primary, created at 9) and
  Max (primary, created at 2), the sort puts Max first, then Plus, then Pro.
\<close>

theorem sortPlans_order_witness:
  "(0::nat) < 1 \<and> 1 < length (sortPlans threePlans) \<and>
   isPrimary_plan (sortPlans threePlans ! 0) = isPrimary_plan (sortPlans threePlans ! 1) \<and>
   createdAt (sortPlans threePlans ! 0) = Some (Num 2) \<and>
   createdAt (sortPlans threePlans ! 1) = Some (Num 9) \<and>
   (2::rat) \<le> 9 \<and>
   map name_plan (sortPlans threePlans) = [js ''Max'', js ''Plus'', js ''Pro''] \<and>
   map createdAt (sortPlans threePlans) = [Some (Num 2), Some (Num 9), Some (Num 5)]"
proof -
  have ev: "sortPlans threePlans = [threePlans ! 2, threePlans ! 1, threePlans ! 0]"
    by (simp add: threePlans_def sortPlans_def sortBy_def comparePlans_def)
  have h: "(0::nat) < 1 \<and> 1 < length (sortPlans threePlans) \<and>
     isPrimary_plan (sortPlans threePlans ! 0) = isPrimary_plan (sortPlans threePlans ! 1) \<and>
     createdAt (sortPlans threePlans ! 0) = Some (Num 2) \<and>
     createdAt (sortPlans threePlans ! 1) = Some (Num 9)"
    unfolding ev by (simp add: threePlans_def)
  have "(2::rat) \<le> 9"
    using sortPlans_order [of _ _ threePlans] h by blast
  moreover have "map name_plan (sortPlans threePlans) = [js ''Max'', js ''Plus'', js ''Pro'']"
    "map createdAt (sortPlans threePlans) = [Some (Num 2), Some (Num 9), Some (Num 5)]"
    unfolding ev by (simp_all add: threePlans_def)
  ultimately show ?thesis using h by blast
qed

section \<open>What the handlers leave alone\<close>

lemma isAdmin_handle: "isAdmin (handle e ev w) = isAdmin w \<and> authReady (handle e ev w) = authReady w"
proof (cases ev)
  case (Elapse d)
  then show ?thesis using elapse_frame [of d w] by simp
next
  case (NewPlanChange c)
  then show ?thesis by (cases c) simp_all
qed (auto simp: handler_defs split: option.splits list.splits item_type.splits prod.splits)

lemma isAdmin_run: "isAdmin (run evs w) = isAdmin w \<and> authReady (run evs w) = authReady w"
  by (induction evs w rule: run.induct) (simp_all add: isAdmin_handle)

text \<open>
  C9. The session check sets \<open>isAdmin\<close> to the presence of a user and issues no call to
  the backend. Once the check has run in the mounted component, the dashboard is rendered
  if the check returned a user and the locked-out view otherwise, and no later event
  changes that. (After unmounting, a returning check changes nothing.)
\<close>

theorem admin_gate:
  "isAdmin (authEffect True (SessionReturns u) w) = (u \<noteq> None) \<and>
   issued (authEffect mounted r w) = issued w \<and>
   authEffect False (SessionReturns u) w = w \<and>
   render (authEffect True r (initialWorld pt mt b t)) =
     (if returnsUser r then Dashboard else AccessDenied) \<and>
   render (run evs (authEffect True r (initialWorld pt mt b t))) =
     (if returnsUser r then Dashboard else AccessDenied)"
proof -
  have 1: "render (authEffect True r (initialWorld pt mt b t)) =
     (if returnsUser r then Dashboard else AccessDenied)"
    by (cases r rule: returnsUser.cases) (simp_all add: authEffect_def render_def initialWorld_def)
  have 2: "render (run evs w') = render w'" for w'
    by (simp add: render_def isAdmin_run)
  have 3: "issued (authEffect mounted r w) = issued w"
    by (simp add: authEffect_def split: session_result.splits)
  show ?thesis using 1 2 3 by (simp add: authEffect_def)
qed

section \<open>Deletion\<close>

lemma untouched_prompts:
  "untouched w (handleDeletePlanPrompt plan w) \<and> untouched w (handleDeleteMediaPrompt mediaItem w) \<and>
   untouched w (cancelDeletion w)"
  by (simp add: untouched_def handleDeletePlanPrompt_def handleDeleteMediaPrompt_def cancelDeletion_def)

lemma nothingDeleted_refl: "nothingDeleted w w"
  by (simp add: nothingDeleted_def)

lemma nothingDeleted_trans: "nothingDeleted w w' \<Longrightarrow> nothingDeleted w' w'' \<Longrightarrow> nothingDeleted w w''"
  by (auto simp: nothingDeleted_def)

lemma untouched_nothingDeleted: "untouched w w' \<Longrightarrow> nothingDeleted w w'"
  by (simp add: untouched_def nothingDeleted_def)

lemma nothingDeleted_handle:
  assumes "ev \<noteq> ConfirmDeletion"
  shows "nothingDeleted w (handle e ev w)"
proof (cases ev)
  case (Elapse d)
  then show ?thesis using elapse_frame [of d w] by (simp add: untouched_nothingDeleted)
next
  case (NewPlanChange c)
  then show ?thesis by (cases c) (simp_all add: nothingDeleted_def)
next
  case ConfirmDeletion
  with assms show ?thesis by simp
qed (auto simp: nothingDeleted_def handler_defs insertPlanRow_def insertMediaRow_def
      split: option.splits list.splits prod.splits)

lemma nothingDeleted_run:
  "ConfirmDeletion \<notin> snd ` set evs \<Longrightarrow> nothingDeleted w (run evs w)"
proof (induction evs w rule: run.induct)
  case (1 w)
  show ?case by (simp add: nothingDeleted_refl)
next
  case (2 e ev rest w)
  then have "ev \<noteq> ConfirmDeletion" and "ConfirmDeletion \<notin> snd ` set rest" by auto
  then show ?case
    using 2 nothingDeleted_handle [of ev w e] nothingDeleted_trans by fastforce
qed

text \<open>
  C8. The two prompt handlers issue no call and leave the remote store and both
  collections as they are; for an administrator they leave the modal open on the item.
  Cancel closes the modal, again with no call and nothing changed. In every sequence of
  events without a click on the Delete button of the modal, no delete or remove call is
  issued and no row or stored object goes away.
\<close>

theorem delete_needs_confirmation:
  "untouched w (handleDeletePlanPrompt plan w) \<and>
   untouched w (handleDeleteMediaPrompt mediaItem w) \<and>
   (isAdmin w \<longrightarrow>
      DeleteConfirmationModal (handleDeletePlanPrompt plan w) =
        Some \<lparr>id_item = id_plan plan, type_item = TPlan, name_item = name_plan plan\<rparr> \<and>
      DeleteConfirmationModal (handleDeleteMediaPrompt mediaItem w) =
        Some \<lparr>id_item = id_media mediaItem, type_item = TMedia, name_item = fileName mediaItem\<rparr>) \<and>
   untouched w (cancelDeletion w) \<and>
   DeleteConfirmationModal (cancelDeletion w) = None \<and>
   (ConfirmDeletion \<notin> snd ` set evs \<longrightarrow> nothingDeleted w (run evs w))"
proof -
  have "DeleteConfirmationModal (cancelDeletion w) = None"
    by (simp add: DeleteConfirmationModal_def cancelDeletion_def)
  moreover have "isAdmin w \<longrightarrow>
      DeleteConfirmationModal (handleDeletePlanPrompt plan w) =
        Some \<lparr>id_item = id_plan plan, type_item = TPlan, name_item = name_plan plan\<rparr> \<and>
      DeleteConfirmationModal (handleDeleteMediaPrompt mediaItem w) =
        Some \<lparr>id_item = id_media mediaItem, type_item = TMedia, name_item = fileName mediaItem\<rparr>"
    by (simp add: DeleteConfirmationModal_def handleDeletePlanPrompt_def handleDeleteMediaPrompt_def)
  ultimately show ?thesis using untouched_prompts nothingDeleted_run by blast
qed

theorem delete_needs_confirmation_witness:
  "isAdmin exampleWorld \<and> ConfirmDeletion \<notin> snd ` set promptAndCancel \<and>
   DeleteConfirmationModal (handleDeletePlanPrompt (toPlan exampleEnv examplePlanRow) exampleWorld) =
     Some \<lparr>id_item = js ''id1'', type_item = TPlan, name_item = js ''Pro''\<rparr> \<and>
   nothingDeleted exampleWorld (run promptAndCancel exampleWorld)"
proof -
  have a: "isAdmin exampleWorld" by (simp add: exampleWorld_def)
  have c: "ConfirmDeletion \<notin> snd ` set promptAndCancel" by (simp add: promptAndCancel_def)
  have n: "id_plan (toPlan exampleEnv examplePlanRow) = js ''id1'' \<and>
           name_plan (toPlan exampleEnv examplePlanRow) = js ''Pro''"
    by (simp add: toPlan_def examplePlanRow_def)
  show ?thesis
    using a c n
      delete_needs_confirmation [of exampleWorld "toPlan exampleEnv examplePlanRow" _ promptAndCancel]
    by simp
qed

text \<open>
  C2. An administrator confirms the deletion of a media item whose row is found, and the
  storage remove call fails. Then the calls issued are the look-up and the remove, so no
  delete of the catalogue row; the media table, the stored objects and the in-memory
  media collection are unchanged; and the toasts afterwards are the earlier toasts that
  have not expired during the two calls, followed by exactly one new toast, an error
  toast.
\<close>

theorem media_delete_storage_failure:
  assumes "isAdmin w" and "itemToDelete w = Some item" and "type_item item = TMedia"
    and "\<not> fails e (SelectFileName (id_item item))"
    and "filter (\<lambda>d. id_mrow d = id_item item) (media_table w) = [itemData]"
    and "fails e (Remove (STORAGE_PUBLIC_PATH @ js ''/'' @ file_name itemData))"
  shows "issued (confirmDeletion e w) =
           issued w @ [SelectFileName (id_item item),
                       Remove (STORAGE_PUBLIC_PATH @ js ''/'' @ file_name itemData)] \<and>
         media_table (confirmDeletion e w) = media_table w \<and>
         bucket (confirmDeletion e w) = bucket w \<and>
         mediaItems (confirmDeletion e w) = mediaItems w \<and>
         toasts (confirmDeletion e w) =
           toasts (elapse (latency e (Remove (STORAGE_PUBLIC_PATH @ js ''/'' @ file_name itemData)))
                     (elapse (latency e (SelectFileName (id_item item))) w)) @
           [\<lparr>id_toast =
               toString (clock w + int (latency e (SelectFileName (id_item item))) +
                 int (latency e (Remove (STORAGE_PUBLIC_PATH @ js ''/'' @ file_name itemData)))),
             message =
               js ''Failed to delete media '' @ dquote @ name_item item @ dquote @ js ''. Check RLS.'',
             type_toast = Error\<rparr>] \<and>
         subseq
           (toasts (elapse (latency e (Remove (STORAGE_PUBLIC_PATH @ js ''/'' @ file_name itemData)))
                      (elapse (latency e (SelectFileName (id_item item))) w)))
           (toasts w)"
proof -
  let ?l1 = "latency e (SelectFileName (id_item item))"
  let ?l2 = "latency e (Remove (STORAGE_PUBLIC_PATH @ js ''/'' @ file_name itemData))"
  have "subseq (toasts (elapse ?l2 (elapse ?l1 w))) (toasts w)"
    by (intro subseq_elapse_trans subseq_order.refl)
  then show ?thesis
    using assms
    by (simp add: confirmDeletion_def confirmDeletion_try_def reportsError_def issue_def
        elapse_commute elapse_fields addToast_def Let_def js_def)
qed

text \<open>
  With six seconds for every call, the info toast that is on screen, due to expire at
  5007, is gone when the error toast arrives at 12007.
\<close>

theorem media_delete_storage_failure_witness:
  "isAdmin toastedWorld \<and>
   map type_toast (toasts toastedWorld) = [Info] \<and>
   fails slowEnv (Remove (STORAGE_PUBLIC_PATH @ js ''/'' @ file_name exampleMediaRow)) \<and>
   media_table (confirmDeletion slowEnv toastedWorld) = [exampleMediaRow] \<and>
   mediaItems (confirmDeletion slowEnv toastedWorld) = mediaItems toastedWorld \<and>
   issued (confirmDeletion slowEnv toastedWorld) =
     [SelectFileName (js ''id2''), Remove (js ''public/media/1_a.png'')] \<and>
   toasts (confirmDeletion slowEnv toastedWorld) =
     [\<lparr>id_toast = js ''12007'',
       message = js ''Failed to delete media '' @ dquote @ js ''1_a.png'' @ dquote @ js ''. Check RLS.'',
       type_toast = Error\<rparr>]"
proof -
  let ?w = toastedWorld
  let ?e = slowEnv
  let ?item = "\<lparr>id_item = js ''id2'', type_item = TMedia, name_item = js ''1_a.png''\<rparr>"
  have w: "isAdmin ?w" "itemToDelete ?w = Some ?item" "media_table ?w = [exampleMediaRow]"
    "issued ?w = []" "clock ?w = 7"
    "toasts ?w = [\<lparr>id_toast = toString 7, message = js ''File selected: a.png'', type_toast = Info\<rparr>]"
    "timers ?w = [(5007, ExpireToast (toString 7))]"
    by (simp_all add: toastedWorld_def addToast_def Let_def pendingWorld_def
        handleDeleteMediaPrompt_def exampleWorld_def initialWorld_def toMedia_def exampleMediaRow_def)
  have 3: "type_item ?item = TMedia" by simp
  have 4: "\<not> fails ?e (SelectFileName (id_item ?item))" by (simp add: slowEnv_def)
  have 5: "filter (\<lambda>d. id_mrow d = id_item ?item) (media_table ?w) = [exampleMediaRow]"
    by (simp add: w exampleMediaRow_def)
  have 6: "fails ?e (Remove (STORAGE_PUBLIC_PATH @ js ''/'' @ file_name exampleMediaRow))"
    by (simp add: slowEnv_def)
  have l: "latency ?e c = 6000" for c by (simp add: slowEnv_def)
  have gone: "toasts (elapse 6000 (elapse 6000 ?w)) = []"
    by (simp add: elapse_def w)
  have id: "toString 12007 = js ''12007''"
    by (simp add: toString_def digits_small digits_step digitChar_def js_def)
  have path: "STORAGE_PUBLIC_PATH @ js ''/'' @ file_name exampleMediaRow = js ''public/media/1_a.png''"
    by (simp add: STORAGE_PUBLIC_PATH_def exampleMediaRow_def js_def)
  show ?thesis
    using w(1,3,4,5,6) 6 gone id path media_delete_storage_failure [OF w(1) w(2) 3 4 5 6]
    by (simp add: l)
qed

section \<open>Adding a plan\<close>

lemma example_strings:
  "trim (js ''Basic'') = js ''Basic''" "trim (js ''$10'') = js ''$10''"
  "normalizeFeatures (js ''Wifi, Support'') = js ''Wifi, Support''"
  "featureList (js ''Wifi, Support'') = [js ''Wifi'', js ''Support'']"
  "js ''Wifi, Support'' \<noteq> []"
  by code_simp+

lemma planPayload_isAddingPlan: "planPayload e (w\<lparr>isAddingPlan := b\<rparr>) = planPayload e w"
  by (simp add: planPayload_def)

lemma handleAddPlan_success:
  assumes "isAdmin w" and "\<not> fails e (InsertPlan (planPayload e w))" and "\<not> fails e SelectPlans"
  shows "plans (handleAddPlan e w) =
           sortPlans (map (toPlan e) (insertPlanRow e (planPayload e w) (plans_table w)))"
  using assms
  by (simp add: handler_defs planPayload_isAddingPlan)

text \<open>
  C5. An administrator submits the new plan Basic, \<^verbatim>\<open>$10\<close>, features
  \<^verbatim>\<open>"Wifi, Support"\<close>, not primary; the insert and the re-fetch succeed, and the plan
  collection mirrored the table before. Then the stored feature text is
  \<^verbatim>\<open>"Wifi, Support"\<close>, and the plan collection afterwards is the one before plus exactly
  one plan, with that name and price, the feature list \<^verbatim>\<open>["Wifi", "Support"]\<close> and the
  primary flag off.
\<close>

theorem add_plan_roundtrip:
  assumes "isAdmin w"
    and "newPlan w = \<lparr>name_new = js ''Basic'', price_new = js ''$10'',
                      features_new = js ''Wifi, Support'', isPrimary_new = False\<rparr>"
    and "\<not> fails e (InsertPlan (planPayload e w))"
    and "\<not> fails e SelectPlans"
    and "plans w = sortPlans (map (toPlan e) (plans_table w))"
  shows "features_pl (planPayload e w) = js ''Wifi, Support'' \<and>
         (\<exists>p. mset (plans (handleAddPlan e w)) = add_mset p (mset (plans w)) \<and>
              name_plan p = js ''Basic'' \<and> price_plan p = js ''$10'' \<and>
              features_plan p = [js ''Wifi'', js ''Support''] \<and> \<not> isPrimary_plan p)"
proof -
  let ?row = "\<lparr>id_prow = assigned_id e, name_prow = js ''Basic'', price_prow = js ''$10'',
               features_prow = Some (js ''Wifi, Support''), is_primary = Some False,
               created_at = Some (toISOString e (clock w))\<rparr>"
  have ins: "insertPlanRow e (planPayload e w) (plans_table w) = plans_table w @ [?row]"
    using assms(2) by (simp add: insertPlanRow_def planPayload_def example_strings)
  have "plans (handleAddPlan e w) = sortPlans (map (toPlan e) (plans_table w @ [?row]))"
    using handleAddPlan_success [OF assms(1,3,4)] ins by simp
  then have "mset (plans (handleAddPlan e w)) = add_mset (toPlan e ?row) (mset (plans w))"
    using assms(5) by (simp add: mset_sortPlans)
  moreover have "name_plan (toPlan e ?row) = js ''Basic''" "price_plan (toPlan e ?row) = js ''$10''"
    "features_plan (toPlan e ?row) = [js ''Wifi'', js ''Support'']" "\<not> isPrimary_plan (toPlan e ?row)"
    by (simp_all add: toPlan_def example_strings)
  moreover have "features_pl (planPayload e w) = js ''Wifi, Support''"
    using assms(2) by (simp add: planPayload_def example_strings)
  ultimately show ?thesis by blast
qed

theorem add_plan_roundtrip_witness:
  "isAdmin exampleWorld \<and> \<not> fails exampleEnv SelectPlans \<and>
   features_pl (planPayload exampleEnv exampleWorld) = js ''Wifi, Support'' \<and>
   (\<exists>p. mset (plans (handleAddPlan exampleEnv exampleWorld)) = add_mset p (mset (plans exampleWorld)) \<and>
        name_plan p = js ''Basic'' \<and> price_plan p = js ''$10'' \<and>
        features_plan p = [js ''Wifi'', js ''Support''] \<and> \<not> isPrimary_plan p)"
proof -
  have 1: "isAdmin exampleWorld" by (simp add: exampleWorld_def)
  have 2: "newPlan exampleWorld = \<lparr>name_new = js ''Basic'', price_new = js ''$10'',
                      features_new = js ''Wifi, Support'', isPrimary_new = False\<rparr>"
    by (simp add: exampleWorld_def)
  have 3: "\<not> fails exampleEnv (InsertPlan (planPayload exampleEnv exampleWorld))"
    by (simp add: exampleEnv_def)
  have 4: "\<not> fails exampleEnv SelectPlans" by (simp add: exampleEnv_def)
  have 5: "plans exampleWorld = sortPlans (map (toPlan exampleEnv) (plans_table exampleWorld))"
    by (simp add: exampleWorld_def initialWorld_def sortPlans_def sortBy_def)
  show ?thesis using 1 4 add_plan_roundtrip [OF 1 2 3 4 5] by simp
qed

section \<open>Failures of backend calls\<close>

lemma fetch_failure:
  "(fails e SelectPlans \<longrightarrow>
      subseq (toasts (fetchPlans e w)) (toasts w) \<and>
      error (fetchPlans e w) = Some (js ''Failed to fetch plans.'') \<and>
      plans (fetchPlans e w) = plans w \<and> mediaItems (fetchPlans e w) = mediaItems w) \<and>
   (fails e SelectMedia \<longrightarrow>
      subseq (toasts (fetchMedia e w)) (toasts w) \<and>
      error (fetchMedia e w) = Some (js ''Failed to fetch media.'') \<and>
      plans (fetchMedia e w) = plans w \<and> mediaItems (fetchMedia e w) = mediaItems w)"
  by (auto simp: handler_defs intro!: subseq_elapse_trans)

text \<open>
  The three mutating handlers do report through \<^verbatim>\<open>addToast\<close>: when the backend reports
  an error for a call that the handler issues itself, the last toast is an error toast,
  the toasts before it are earlier ones (or the info toast of the upload), and the
  collections are unchanged.
\<close>

lemma addPlan_failure:
  assumes "directFailure e w (handleAddPlan e w)"
  shows "toasts (handleAddPlan e w) \<noteq> [] \<and>
         type_toast (last (toasts (handleAddPlan e w))) = Error \<and>
         subseq (butlast (toasts (handleAddPlan e w))) (toasts w) \<and>
         plans (handleAddPlan e w) = plans w \<and> mediaItems (handleAddPlan e w) = mediaItems w"
  using assms
  by (auto simp: directFailure_def newCalls_def handler_defs split: if_splits
      intro!: subseq_elapse_trans)

lemma mediaUpload_failure:
  assumes "directFailure e w (handleMediaUpload e w)" and "uploadFile w = Some f"
  shows "toasts (handleMediaUpload e w) \<noteq> [] \<and>
         type_toast (last (toasts (handleMediaUpload e w))) = Error \<and>
         subseq (butlast (toasts (handleMediaUpload e w)))
           (toasts w @ [\<lparr>id_toast = toString (clock w),
                          message = js ''Starting upload: '' @ name_file f @ js ''...'',
                          type_toast = Info\<rparr>]) \<and>
         plans (handleMediaUpload e w) = plans w \<and>
         mediaItems (handleMediaUpload e w) = mediaItems w"
  using assms
  by (auto simp: directFailure_def newCalls_def handler_defs split: if_splits
      intro!: subseq_elapse_trans subseq_progressLoop_trans)

lemma confirmDeletion_failure:
  "directFailure e w (confirmDeletion e w) \<longrightarrow>
     toasts (confirmDeletion e w) \<noteq> [] \<and>
     type_toast (last (toasts (confirmDeletion e w))) = Error \<and>
     subseq (butlast (toasts (confirmDeletion e w))) (toasts w) \<and>
     plans (confirmDeletion e w) = plans w \<and> mediaItems (confirmDeletion e w) = mediaItems w"
proof (cases "itemToDelete w")
  case None
  then show ?thesis by (simp add: directFailure_def newCalls_def confirmDeletion_def)
next
  case (Some item)
  show ?thesis
  proof (cases "type_item item")
    case TPlan
    with Some show ?thesis
      by (simp add: directFailure_def newCalls_def handler_defs subseq_elapse_trans)
  next
    case TMedia
    with Some show ?thesis
      by (simp add: directFailure_def newCalls_def handler_defs subseq_elapse_trans
          split: list.splits)
  qed
qed

text \<open>
  C3. Every backend-call failure is to be converted to an error toast. The code does not
  do so for the select-all of \<^verbatim>\<open>fetchPlans\<close> and \<^verbatim>\<open>fetchMedia\<close>: when it fails, no
  toast is produced and the message goes to the \<open>error\<close> field; when it fails in the
  re-fetch of add plan, the only toast is a success toast; and when it fails for the
  plans during the load, the resuming media fetch clears the message again.
\<close>

theorem fetch_failure_no_toast:
  "fails failRefetch SelectPlans \<and> fails failRefetch SelectMedia \<and>
   toasts (fetchPlans failRefetch exampleWorld) = [] \<and>
   error (fetchPlans failRefetch exampleWorld) = Some (js ''Failed to fetch plans.'') \<and>
   toasts (fetchMedia failRefetch exampleWorld) = [] \<and>
   error (fetchMedia failRefetch exampleWorld) = Some (js ''Failed to fetch media.'') \<and>
   map type_toast (toasts (handleAddPlan failRefetch exampleWorld)) = [Success] \<and>
   fails failPlans SelectPlans \<and>
   toasts (loadEffect True failPlans exampleWorld) = [] \<and>
   error (loadEffect True failPlans exampleWorld) = None"
proof -
  have w: "toasts exampleWorld = []" "timers exampleWorld = []" "isAdmin exampleWorld"
    "authReady exampleWorld"
    by (simp_all add: exampleWorld_def initialWorld_def)
  have el: "elapse d (exampleWorld\<lparr>issued := x\<rparr>) =
              exampleWorld\<lparr>issued := x, clock := clock exampleWorld + int d, timers := []\<rparr>" for d x
    by (simp add: elapse_def w)
  have el2: "elapse d (exampleWorld\<lparr>isAddingPlan := True, issued := x\<rparr>) =
     exampleWorld\<lparr>isAddingPlan := True, issued := x, clock := clock exampleWorld + int d, timers := []\<rparr>"
    for d x
    by (simp add: elapse_def w)
  have el3: "elapse d (exampleWorld\<lparr>loading := True, issued := x\<rparr>) =
     exampleWorld\<lparr>loading := True, issued := x, clock := clock exampleWorld + int d, timers := []\<rparr>"
    for d x
    by (simp add: elapse_def w)
  have 1: "toasts (fetchPlans failRefetch exampleWorld) = [] \<and>
           error (fetchPlans failRefetch exampleWorld) = Some (js ''Failed to fetch plans.'') \<and>
           toasts (fetchMedia failRefetch exampleWorld) = [] \<and>
           error (fetchMedia failRefetch exampleWorld) = Some (js ''Failed to fetch media.'')"
    by (simp add: fetchPlans_def fetchPlans_resume_def fetchMedia_def fetchMedia_resume_def
        reportsError_def issue_def el w failRefetch_def exampleEnv_def)
  have 2: "map type_toast (toasts (handleAddPlan failRefetch exampleWorld)) = [Success]"
    by (simp add: handleAddPlan_def addPlan_try_def fetchPlans_def fetchPlans_resume_def
        reportsError_def issue_def el2 elapse_def addToast_def Let_def w failRefetch_def
        exampleEnv_def)
  have 3: "toasts (loadEffect True failPlans exampleWorld) = [] \<and>
           error (loadEffect True failPlans exampleWorld) = None"
    by (simp add: loadEffect_def fetchPlans_resume_def fetchMedia_resume_def reportsError_def
        el3 elapse_def Let_def w failPlans_def exampleEnv_def)
  show ?thesis using 1 2 3 by (simp add: failRefetch_def failPlans_def)
qed

text \<open>The hypotheses of the three lemmas on the mutating handlers can be met.\<close>

lemma direct_failure_examples:
  "directFailure failAll exampleWorld (handleAddPlan failAll exampleWorld) \<and>
   map type_toast (toasts (handleAddPlan failAll exampleWorld)) = [Error] \<and>
   directFailure failAll exampleWorld (handleMediaUpload failAll exampleWorld) \<and>
   map type_toast (toasts (handleMediaUpload failAll exampleWorld)) = [Info, Error] \<and>
   directFailure failAll pendingWorld (confirmDeletion failAll pendingWorld) \<and>
   map type_toast (toasts (confirmDeletion failAll pendingWorld)) = [Error]"
  by (simp add: directFailure_def newCalls_def failAll_def pendingWorld_def exampleWorld_def
      exampleEnv_def initialWorld_def handleAddPlan_def addPlan_try_def handleMediaUpload_def
      mediaUpload_try_def confirmDeletion_def confirmDeletion_try_def handleDeleteMediaPrompt_def
      reportsError_def issue_def elapse_def addToast_def Let_def toMedia_def exampleMediaRow_def)

end
